theory Spec2Isabelle
  imports Main
begin

section \<open>Data model of the pki package\<close>

text \<open>
  Go's \<^verbatim>\<open>[]byte\<close> and \<^verbatim>\<open>string\<close> are both sequences of bytes; the conversion
  \<^verbatim>\<open>[]byte(s)\<close> keeps the bytes, so one type stands for both.
\<close>

type_synonym bytes = string

text \<open>The struct \<^verbatim>\<open>pem.Block\<close> of \<^verbatim>\<open>encoding/pem\<close>.\<close>

record pem_Block =
  Type :: string
  Headers :: "(string \<times> string) list"
  Bytes :: bytes

record IssueData =
  CaChain :: "string list"
  Certificate :: string
  Expiration :: int
  IssuingCa :: string
  PrivateKey :: string
  PrivateKeyType :: string
  SerialNumber :: string

text \<open>
  Go \<^verbatim>\<open>error\<close> values the package can return. The four sentinels are the package variables
  the functions name (\<^verbatim>\<open>ErrEmptyResult\<close>, \<^verbatim>\<open>ErrCertificateExpected\<close>, \<^verbatim>\<open>ErrCRLExpected\<close>,
  \<^verbatim>\<open>ErrInvalidPrivateKey\<close>); \<open>Errorf prefix e\<close> is \<^verbatim>\<open>fmt.Errorf(prefix + "%w", e)\<close>;
  \<open>X509Error msg\<close> is an error made by a parser of \<^verbatim>\<open>crypto/x509\<close>; \<open>OtherError msg\<close> is
  any other error made outside the package (transport, reading the body).
\<close>

datatype error =
    ErrEmptyResult
  | ErrCertificateExpected
  | ErrCRLExpected
  | ErrInvalidPrivateKey
  | Errorf string error
  | X509Error string
  | OtherError string

text \<open>
  \<^verbatim>\<open>GetPrivateKey\<close> returns an \<^verbatim>\<open>interface{}\<close> that holds an \<^verbatim>\<open>*rsa.PrivateKey\<close> or an
  \<^verbatim>\<open>*ecdsa.PrivateKey\<close>.
\<close>

datatype ('rsa, 'ec) private_key = RSA_PrivateKey 'rsa | ECDSA_PrivateKey 'ec

text \<open>
  The calls a function makes outside the package, in the order it makes them. The first
  four are the transport (they perform or consume I/O), the other five are the in-memory
  decoders of \<^verbatim>\<open>encoding/pem\<close> and \<^verbatim>\<open>crypto/x509\<close>, with the bytes they are given.
\<close>

datatype event =
    Call_newServiceRequest string string
  | Call_do
  | Call_ReadAll
  | Call_Body_Close
  | Call_pem_Decode bytes
  | Call_ParseCertificate bytes
  | Call_ParseCRL bytes
  | Call_ParsePKCS1PrivateKey bytes
  | Call_ParseECPrivateKey bytes


text \<open>
  The standard-library decoders are parameters of the model. \<open>pem_Decode\<close> returns the
  first block it finds (or none) and the rest of the input; each parser of \<^verbatim>\<open>crypto/x509\<close>
  returns either an error (its message) or the parsed object, never both.
\<close>

record ('cert, 'crl, 'rsa, 'ec) library =
  pem_Decode :: "bytes \<Rightarrow> pem_Block option \<times> bytes"
  x509_ParseCertificate :: "bytes \<Rightarrow> string + 'cert"
  x509_ParseCRL :: "bytes \<Rightarrow> string + 'crl"
  x509_ParsePKCS1PrivateKey :: "bytes \<Rightarrow> string + 'rsa"
  x509_ParseECPrivateKey :: "bytes \<Rightarrow> string + 'ec"

section \<open>Decoding the fields of an issue response\<close>

text \<open>
  The receiver \<^verbatim>\<open>d *IssueData\<close> is only read; the model takes the struct it points to.
  A Go result pair \<^verbatim>\<open>(value, err)\<close> is a pair of options, \<open>None\<close> for \<^verbatim>\<open>nil\<close>.
\<close>

definition GetCertificate ::
  "('cert, 'crl, 'rsa, 'ec) library \<Rightarrow> IssueData \<Rightarrow> ('cert option \<times> error option) \<times> event list" where
  "GetCertificate lib d =
     (let block = fst (pem_Decode lib (Certificate d));
          calls = [Call_pem_Decode (Certificate d)]
      in case block of
           None \<Rightarrow> ((None, Some ErrCertificateExpected), calls)
         | Some b \<Rightarrow>
             if Type b \<noteq> ''CERTIFICATE'' then ((None, Some ErrCertificateExpected), calls)
             else (case x509_ParseCertificate lib (Bytes b) of
                     Inl msg \<Rightarrow> ((None, Some (X509Error msg)), calls @ [Call_ParseCertificate (Bytes b)])
                   | Inr cert \<Rightarrow> ((Some cert, None), calls @ [Call_ParseCertificate (Bytes b)])))"

definition GetPrivateKey ::
  "('cert, 'crl, 'rsa, 'ec) library \<Rightarrow> IssueData
     \<Rightarrow> (('rsa, 'ec) private_key option \<times> error option) \<times> event list" where
  "GetPrivateKey lib d =
     (let block = fst (pem_Decode lib (PrivateKey d));
          calls = [Call_pem_Decode (PrivateKey d)]
      in case block of
           None \<Rightarrow> ((None, Some ErrInvalidPrivateKey), calls)
         | Some b \<Rightarrow>
             if PrivateKeyType d = ''rsa'' then
               (if Type b \<noteq> ''RSA PRIVATE KEY'' then ((None, Some ErrInvalidPrivateKey), calls)
                else (case x509_ParsePKCS1PrivateKey lib (Bytes b) of
                        Inl msg \<Rightarrow>
                          ((None, Some (X509Error msg)), calls @ [Call_ParsePKCS1PrivateKey (Bytes b)])
                      | Inr private \<Rightarrow>
                          ((Some (RSA_PrivateKey private), None),
                           calls @ [Call_ParsePKCS1PrivateKey (Bytes b)])))
             else if PrivateKeyType d = ''ec'' then
               (if Type b \<noteq> ''EC PRIVATE KEY'' then ((None, Some ErrInvalidPrivateKey), calls)
                else (case x509_ParseECPrivateKey lib (Bytes b) of
                        Inl msg \<Rightarrow>
                          ((None, Some (X509Error msg)), calls @ [Call_ParseECPrivateKey (Bytes b)])
                      | Inr private \<Rightarrow>
                          ((Some (ECDSA_PrivateKey private), None),
                           calls @ [Call_ParseECPrivateKey (Bytes b)])))
             else ((None, Some ErrInvalidPrivateKey), calls))"

section \<open>Fetching a CA certificate or a CRL\<close>

text \<open>
  The HTTP client of the package is a parameter: \<open>newServiceRequest method path options\<close>
  builds the request (the body argument is always \<^verbatim>\<open>nil\<close> here), \<open>client_do\<close> performs it
  and returns the response pointer and the error, \<open>ReadAll_Body\<close> is
  \<^verbatim>\<open>ioutil.ReadAll(resp.Body)\<close>. The deferred \<^verbatim>\<open>resp.Body.Close()\<close> runs when the function
  returns, so it is the last call of every path that reached the \<^verbatim>\<open>defer\<close>.
\<close>

record ('req, 'resp, 'opt) Client =
  newServiceRequest :: "string \<Rightarrow> string \<Rightarrow> 'opt list \<Rightarrow> error + 'req"
  client_do :: "'req \<Rightarrow> 'resp option \<times> error option"
  ReadAll_Body :: "'resp \<Rightarrow> error + bytes"

definition getCA ::
  "('cert, 'crl, 'rsa, 'ec) library \<Rightarrow> ('req, 'resp, 'opt) Client \<Rightarrow> string \<Rightarrow> 'opt list
     \<Rightarrow> ('cert option \<times> pem_Block option \<times> 'resp option \<times> error option) \<times> event list" where
  "getCA lib c path options =
     (case newServiceRequest c ''GET'' path options of
        Inl err \<Rightarrow> ((None, None, None, Some err), [Call_newServiceRequest ''GET'' path])
      | Inr req \<Rightarrow>
          (case client_do c req of
             (resp, Some err) \<Rightarrow>
               ((None, None, resp, Some err), [Call_newServiceRequest ''GET'' path, Call_do])
           | (None, None) \<Rightarrow>
               ((None, None, None, Some (Errorf ''getCA: '' ErrEmptyResult)),
                [Call_newServiceRequest ''GET'' path, Call_do])
           | (Some r, None) \<Rightarrow>
               (case ReadAll_Body c r of
                  Inl err \<Rightarrow>
                    ((None, None, Some r, Some err),
                     [Call_newServiceRequest ''GET'' path, Call_do, Call_ReadAll, Call_Body_Close])
                | Inr pemData \<Rightarrow>
                    (let block = fst (pem_Decode lib pemData);
                         calls = [Call_newServiceRequest ''GET'' path, Call_do, Call_ReadAll,
                                  Call_pem_Decode pemData]
                     in case block of
                          None \<Rightarrow>
                            ((None, None, Some r, Some ErrCertificateExpected),
                             calls @ [Call_Body_Close])
                        | Some b \<Rightarrow>
                            if Type b \<noteq> ''CERTIFICATE'' then
                              ((None, None, Some r, Some ErrCertificateExpected),
                               calls @ [Call_Body_Close])
                            else (case x509_ParseCertificate lib (Bytes b) of
                                    Inl msg \<Rightarrow>
                                      ((None, Some b, Some r, Some (X509Error msg)),
                                       calls @ [Call_ParseCertificate (Bytes b), Call_Body_Close])
                                  | Inr pub \<Rightarrow>
                                      ((Some pub, Some b, Some r, None),
                                       calls @ [Call_ParseCertificate (Bytes b), Call_Body_Close]))))))"

definition getCRL ::
  "('cert, 'crl, 'rsa, 'ec) library \<Rightarrow> ('req, 'resp, 'opt) Client \<Rightarrow> string \<Rightarrow> 'opt list
     \<Rightarrow> ('crl option \<times> pem_Block option \<times> 'resp option \<times> error option) \<times> event list" where
  "getCRL lib c path options =
     (case newServiceRequest c ''GET'' path options of
        Inl err \<Rightarrow> ((None, None, None, Some err), [Call_newServiceRequest ''GET'' path])
      | Inr req \<Rightarrow>
          (case client_do c req of
             (resp, Some err) \<Rightarrow>
               ((None, None, resp, Some err), [Call_newServiceRequest ''GET'' path, Call_do])
           | (None, None) \<Rightarrow>
               ((None, None, None, Some (Errorf ''getCRL: '' ErrEmptyResult)),
                [Call_newServiceRequest ''GET'' path, Call_do])
           | (Some r, None) \<Rightarrow>
               (case ReadAll_Body c r of
                  Inl err \<Rightarrow>
                    ((None, None, Some r, Some err),
                     [Call_newServiceRequest ''GET'' path, Call_do, Call_ReadAll, Call_Body_Close])
                | Inr pemData \<Rightarrow>
                    (let block = fst (pem_Decode lib pemData);
                         calls = [Call_newServiceRequest ''GET'' path, Call_do, Call_ReadAll,
                                  Call_pem_Decode pemData]
                     in case block of
                          None \<Rightarrow>
                            ((None, None, Some r, Some ErrCRLExpected), calls @ [Call_Body_Close])
                        | Some b \<Rightarrow>
                            if Type b \<noteq> ''X509 CRL'' then
                              ((None, None, Some r, Some ErrCRLExpected), calls @ [Call_Body_Close])
                            else (case x509_ParseCRL lib (Bytes b) of
                                    Inl msg \<Rightarrow>
                                      ((None, Some b, Some r, Some (X509Error msg)),
                                       calls @ [Call_ParseCRL (Bytes b), Call_Body_Close])
                                  | Inr pub \<Rightarrow>
                                      ((Some pub, Some b, Some r, None),
                                       calls @ [Call_ParseCRL (Bytes b), Call_Body_Close]))))))"

section \<open>Looking up an IAM role by its ID\<close>

record Role =
  ID :: string
  Name :: string
  Description :: string
  ManagingOrganization :: string

datatype iam_error = ErrNotFound | IamError string

text \<open>
  The client of the iam package: \<open>newRequest endpoint method path\<close> (the last two
  arguments are \<^verbatim>\<open>nil\<close> here), \<open>Header_Set\<close> for \<^verbatim>\<open>req.Header.Set\<close>, and \<open>iam_do req v\<close>,
  which performs the request and decodes the response body into the variable whose
  current value is \<open>v\<close>: it returns the response pointer, the error and the new value.
\<close>

record ('req, 'resp) iam_Client =
  newRequest :: "string \<Rightarrow> string \<Rightarrow> string \<Rightarrow> iam_error + 'req"
  Header_Set :: "'req \<Rightarrow> string \<Rightarrow> string \<Rightarrow> 'req"
  iam_do :: "'req \<Rightarrow> Role \<Rightarrow> 'resp option \<times> iam_error option \<times> Role"

definition roleAPIVersion :: string where
  "roleAPIVersion = ''1''"

text \<open>The zero value of \<^verbatim>\<open>var role Role\<close>.\<close>

definition zero_Role :: Role where
  "zero_Role = \<lparr>ID = [], Name = [], Description = [], ManagingOrganization = []\<rparr>"

definition GetRoleByID ::
  "('req, 'resp) iam_Client \<Rightarrow> string \<Rightarrow> Role option \<times> 'resp option \<times> iam_error option" where
  "GetRoleByID c roleID =
     (case newRequest c ''IDM'' ''GET'' (''authorize/identity/Role/'' @ roleID) of
        Inl err \<Rightarrow> (None, None, Some err)
      | Inr req \<Rightarrow>
          (let req1 = Header_Set c req ''api-version'' roleAPIVersion;
               req2 = Header_Set c req1 ''Content-Type'' ''application/json''
           in case iam_do c req2 zero_Role of
                (resp, Some err, role) \<Rightarrow> (None, resp, Some err)
              | (resp, None, role) \<Rightarrow>
                  if ID role \<noteq> roleID then (None, resp, Some ErrNotFound)
                  else (Some role, resp, None)))"

section \<open>A test fixture for the parameters\<close>

text \<open>
  A small instance of the standard library, used to run the functions on concrete inputs.
  \<open>armor T body\<close> is the PEM text of a block of type \<open>T\<close> whose base64 body is \<open>body\<close>;
  the fixture's \<open>pem_Decode\<close> knows a fixed table of such texts and returns the block of the
  first one the input starts with, and the input behind it as the rest. The base64 body
  \<^verbatim>\<open>AAEC\<close> is the bytes 0, 1, 2, which the fixture's parsers accept; \<^verbatim>\<open>/w==\<close> is the byte
  255, which they reject.
\<close>

definition armor :: "string \<Rightarrow> string \<Rightarrow> bytes" where
  "armor T body =
     ''-----BEGIN '' @ T @ ''-----'' @ [CHR 0x0A] @ body @ [CHR 0x0A] @
     ''-----END '' @ T @ ''-----'' @ [CHR 0x0A]"

definition good_der :: bytes where
  "good_der = [CHR 0x00, CHR 0x01, CHR 0x02]"

definition bad_der :: bytes where
  "bad_der = [CHR 0xFF]"

definition fixture_table :: "(bytes \<times> pem_Block) list" where
  "fixture_table =
     [(armor ''CERTIFICATE'' ''AAEC'', \<lparr>Type = ''CERTIFICATE'', Headers = [], Bytes = good_der\<rparr>),
      (armor ''CERTIFICATE'' ''/w=='', \<lparr>Type = ''CERTIFICATE'', Headers = [], Bytes = bad_der\<rparr>),
      (armor ''X509 CRL'' ''AAEC'', \<lparr>Type = ''X509 CRL'', Headers = [], Bytes = good_der\<rparr>),
      (armor ''X509 CRL'' ''/w=='', \<lparr>Type = ''X509 CRL'', Headers = [], Bytes = bad_der\<rparr>),
      (armor ''RSA PRIVATE KEY'' ''AAEC'',
         \<lparr>Type = ''RSA PRIVATE KEY'', Headers = [], Bytes = good_der\<rparr>),
      (armor ''RSA PRIVATE KEY'' ''/w=='',
         \<lparr>Type = ''RSA PRIVATE KEY'', Headers = [], Bytes = bad_der\<rparr>),
      (armor ''EC PRIVATE KEY'' ''AAEC'',
         \<lparr>Type = ''EC PRIVATE KEY'', Headers = [], Bytes = good_der\<rparr>),
      (armor ''EC PRIVATE KEY'' ''/w=='',
         \<lparr>Type = ''EC PRIVATE KEY'', Headers = [], Bytes = bad_der\<rparr>)]"

fun fixture_lookup :: "(bytes \<times> pem_Block) list \<Rightarrow> bytes \<Rightarrow> pem_Block option \<times> bytes" where
  "fixture_lookup [] data = (None, data)"
| "fixture_lookup ((text, b) # table) data =
     (if take (length text) data = text then (Some b, drop (length text) data)
      else fixture_lookup table data)"

definition fixture_parse :: "string \<Rightarrow> bytes \<Rightarrow> string + string" where
  "fixture_parse what der =
     (if der = good_der then Inr (what @ '' 0 1 2'') else Inl ''asn1: syntax error'')"

definition fixture_lib :: "(string, string, string, string) library" where
  "fixture_lib =
     \<lparr>pem_Decode = fixture_lookup fixture_table,
      x509_ParseCertificate = fixture_parse ''certificate'',
      x509_ParseCRL = fixture_parse ''crl'',
      x509_ParsePKCS1PrivateKey = fixture_parse ''rsa key'',
      x509_ParseECPrivateKey = fixture_parse ''ec key''\<rparr>"

text \<open>
  A transport whose every request succeeds: the request is its path, the response is the
  body given to the fixture, and reading the body returns it.
\<close>

definition fixture_client :: "bytes \<Rightarrow> (string, bytes, unit) Client" where
  "fixture_client body =
     \<lparr>newServiceRequest = (\<lambda>method path options. Inr path),
      client_do = (\<lambda>req. (Some body, None)),
      ReadAll_Body = (\<lambda>resp. Inr resp)\<rparr>"

definition key_data :: "string \<Rightarrow> string \<Rightarrow> IssueData" where
  "key_data pemText keyType =
     \<lparr>CaChain = [], Certificate = [], Expiration = 0, IssuingCa = [],
      PrivateKey = pemText, PrivateKeyType = keyType, SerialNumber = []\<rparr>"

definition cert_data :: "string \<Rightarrow> IssueData" where
  "cert_data pemText =
     \<lparr>CaChain = [], Certificate = pemText, Expiration = 0, IssuingCa = [],
      PrivateKey = [], PrivateKeyType = [], SerialNumber = []\<rparr>"

text \<open>An IAM server that answers every request with the role whose ID is \<^verbatim>\<open>r1\<close>.\<close>

definition fixture_iam :: "(string \<times> (string \<times> string) list, string) iam_Client" where
  "fixture_iam =
     \<lparr>newRequest = (\<lambda>endpoint method path. Inr (path, [])),
      Header_Set = (\<lambda>req k v. (fst req, snd req @ [(k, v)])),
      iam_do = (\<lambda>req v. (Some ''200 OK'', None,
                 v\<lparr>ID := ''r1'', Name := ''ADMIN'', Description := ''administrators''\<rparr>))\<rparr>"

section \<open>Reading a Go result tuple\<close>

text \<open>
  \<open>all_or_nothing (v, err)\<close>: exactly one of the value and the error is \<^verbatim>\<open>nil\<close>.
  The four components of what \<open>getCA\<close> and \<open>getCRL\<close> return are named.
\<close>

definition all_or_nothing :: "'a option \<times> error option \<Rightarrow> bool" where
  "all_or_nothing r \<longleftrightarrow> (fst r \<noteq> None \<and> snd r = None) \<or> (fst r = None \<and> snd r \<noteq> None)"

definition ret_object :: "'a \<times> 'b \<times> 'c \<times> 'd \<Rightarrow> 'a" where
  "ret_object r = fst r"

definition ret_block :: "'a \<times> 'b \<times> 'c \<times> 'd \<Rightarrow> 'b" where
  "ret_block r = fst (snd r)"

definition ret_resp :: "'a \<times> 'b \<times> 'c \<times> 'd \<Rightarrow> 'c" where
  "ret_resp r = fst (snd (snd r))"

definition ret_err :: "'a \<times> 'b \<times> 'c \<times> 'd \<Rightarrow> 'd" where
  "ret_err r = snd (snd (snd r))"

section \<open>Properties of the private-key decoder\<close>

lemmas fixture_defs =
  fixture_lib_def fixture_table_def armor_def fixture_parse_def good_der_def bad_der_def
  key_data_def cert_data_def fixture_client_def

text \<open>
  Claim C1, as the code has it. For every key type other than \<^verbatim>\<open>rsa\<close> and \<^verbatim>\<open>ec\<close>,
  \<open>GetPrivateKey\<close> fails with \<open>ErrInvalidPrivateKey\<close> whatever the PEM text is, also when
  it holds no PEM block. The package has no error of its own for an unsupported key type,
  and the failure does not come before PEM decoding: \<^verbatim>\<open>pem.Decode\<close> is called first, on
  the whole text, and it is the only call made.
\<close>

theorem GetPrivateKey_unsupported_key_type:
  assumes "PrivateKeyType d \<noteq> ''rsa''" and "PrivateKeyType d \<noteq> ''ec''"
  shows "GetPrivateKey lib d =
           ((None, Some ErrInvalidPrivateKey), [Call_pem_Decode (PrivateKey d)])"
  using assms by (simp add: GetPrivateKey_def Let_def split: option.split)

theorem GetPrivateKey_unsupported_key_type_witness:
  "PrivateKeyType (key_data (armor ''RSA PRIVATE KEY'' ''AAEC'') ''dsa'') \<noteq> ''rsa'' \<and>
   PrivateKeyType (key_data (armor ''RSA PRIVATE KEY'' ''AAEC'') ''dsa'') \<noteq> ''ec'' \<and>
   GetPrivateKey fixture_lib (key_data (armor ''RSA PRIVATE KEY'' ''AAEC'') ''dsa'') =
     ((None, Some ErrInvalidPrivateKey), [Call_pem_Decode (armor ''RSA PRIVATE KEY'' ''AAEC'')])"
  using GetPrivateKey_unsupported_key_type
          [of "key_data (armor ''RSA PRIVATE KEY'' ''AAEC'') ''dsa''" fixture_lib]
  by (simp add: key_data_def)

text \<open>
  Against claim C1 as stated: with key type \<^verbatim>\<open>dsa\<close> and a text without any PEM block, the
  error is \<open>ErrInvalidPrivateKey\<close>, the one a missing block gives for a supported key type,
  and the list of calls is not empty: PEM decoding was attempted.
\<close>

theorem GetPrivateKey_dsa_counterexample:
  "snd (fst (GetPrivateKey fixture_lib (key_data ''not a PEM text'' ''dsa''))) =
     Some ErrInvalidPrivateKey \<and>
   snd (GetPrivateKey fixture_lib (key_data ''not a PEM text'' ''dsa'')) =
     [Call_pem_Decode ''not a PEM text'']"
  by (simp add: GetPrivateKey_def fixture_defs)

text \<open>
  Claim C2, as the code has it. When the first PEM block has another type than the key
  type requires (\<^verbatim>\<open>RSA PRIVATE KEY\<close> for \<^verbatim>\<open>rsa\<close>, \<^verbatim>\<open>EC PRIVATE KEY\<close> for \<^verbatim>\<open>ec\<close>),
  \<open>GetPrivateKey\<close> fails with \<open>ErrInvalidPrivateKey\<close>, the error it also gives for a
  missing block; the package has no separate block-type error for keys. The error is never
  one of the DER parsers, and no parser is called: the only call is \<^verbatim>\<open>pem.Decode\<close>.
\<close>

theorem GetPrivateKey_block_type_mismatch:
  assumes "fst (pem_Decode lib (PrivateKey d)) = Some b"
    and "(PrivateKeyType d = ''rsa'' \<and> Type b \<noteq> ''RSA PRIVATE KEY'') \<or>
         (PrivateKeyType d = ''ec'' \<and> Type b \<noteq> ''EC PRIVATE KEY'')"
  shows "GetPrivateKey lib d =
           ((None, Some ErrInvalidPrivateKey), [Call_pem_Decode (PrivateKey d)]) \<and>
         (\<forall>msg. snd (fst (GetPrivateKey lib d)) \<noteq> Some (X509Error msg))"
  using assms by (auto simp add: GetPrivateKey_def Let_def)

theorem GetPrivateKey_block_type_mismatch_witness:
  "fst (pem_Decode fixture_lib (PrivateKey (key_data (armor ''EC PRIVATE KEY'' ''AAEC'') ''rsa''))) =
     Some \<lparr>Type = ''EC PRIVATE KEY'', Headers = [], Bytes = good_der\<rparr> \<and>
   PrivateKeyType (key_data (armor ''EC PRIVATE KEY'' ''AAEC'') ''rsa'') = ''rsa'' \<and>
   Type \<lparr>Type = ''EC PRIVATE KEY'', Headers = [], Bytes = good_der\<rparr> \<noteq> ''RSA PRIVATE KEY'' \<and>
   GetPrivateKey fixture_lib (key_data (armor ''EC PRIVATE KEY'' ''AAEC'') ''rsa'') =
     ((None, Some ErrInvalidPrivateKey), [Call_pem_Decode (armor ''EC PRIVATE KEY'' ''AAEC'')])"
  using GetPrivateKey_block_type_mismatch
          [of fixture_lib "key_data (armor ''EC PRIVATE KEY'' ''AAEC'') ''rsa''"
              "\<lparr>Type = ''EC PRIVATE KEY'', Headers = [], Bytes = good_der\<rparr>"]
  by (simp add: fixture_defs)

text \<open>
  Against claim C2 as stated: a PEM text armored as \<^verbatim>\<open>RSA PRIVATE KEY\<close>, decoded with key
  type \<^verbatim>\<open>ec\<close>, fails with \<open>ErrInvalidPrivateKey\<close>, not with an error for the block type.
\<close>

theorem GetPrivateKey_rsa_pem_as_ec_counterexample:
  "GetPrivateKey fixture_lib (key_data (armor ''RSA PRIVATE KEY'' ''AAEC'') ''ec'') =
     ((None, Some ErrInvalidPrivateKey), [Call_pem_Decode (armor ''RSA PRIVATE KEY'' ''AAEC'')])"
  by (simp add: GetPrivateKey_def fixture_defs)

text \<open>
  Claim C5, as the code has it. For key type \<^verbatim>\<open>rsa\<close> or \<^verbatim>\<open>ec\<close>, when \<^verbatim>\<open>pem.Decode\<close> finds
  no block in the PEM text, \<open>GetPrivateKey\<close> fails with \<open>ErrInvalidPrivateKey\<close>. This error
  is not distinct from the one of a block-type mismatch: every input with a mismatched
  block gets the same result.
\<close>

theorem GetPrivateKey_no_block:
  assumes "PrivateKeyType d = ''rsa'' \<or> PrivateKeyType d = ''ec''"
    and "fst (pem_Decode lib (PrivateKey d)) = None"
  shows "GetPrivateKey lib d =
           ((None, Some ErrInvalidPrivateKey), [Call_pem_Decode (PrivateKey d)]) \<and>
         (\<forall>d' b. fst (pem_Decode lib (PrivateKey d')) = Some b \<and>
                 ((PrivateKeyType d' = ''rsa'' \<and> Type b \<noteq> ''RSA PRIVATE KEY'') \<or>
                  (PrivateKeyType d' = ''ec'' \<and> Type b \<noteq> ''EC PRIVATE KEY''))
            \<longrightarrow> fst (GetPrivateKey lib d') = fst (GetPrivateKey lib d))"
  using assms by (auto simp add: GetPrivateKey_def Let_def)

theorem GetPrivateKey_no_block_witness:
  "(PrivateKeyType (key_data [] ''ec'') = ''rsa'' \<or> PrivateKeyType (key_data [] ''ec'') = ''ec'') \<and>
   fst (pem_Decode fixture_lib (PrivateKey (key_data [] ''ec''))) = None \<and>
   GetPrivateKey fixture_lib (key_data [] ''ec'') =
     ((None, Some ErrInvalidPrivateKey), [Call_pem_Decode []]) \<and>
   fst (pem_Decode fixture_lib (PrivateKey (key_data (armor ''CERTIFICATE'' ''AAEC'') ''ec''))) =
     Some \<lparr>Type = ''CERTIFICATE'', Headers = [], Bytes = good_der\<rparr> \<and>
   fst (GetPrivateKey fixture_lib (key_data (armor ''CERTIFICATE'' ''AAEC'') ''ec'')) =
     fst (GetPrivateKey fixture_lib (key_data [] ''ec''))"
  using GetPrivateKey_no_block [of "key_data [] ''ec''" fixture_lib]
  by (simp add: fixture_defs)

text \<open>
  Against claim C5 as stated: for key type \<^verbatim>\<open>rsa\<close>, the error for an empty text (no PEM
  block) and the error for a text armored as \<^verbatim>\<open>EC PRIVATE KEY\<close> (block-type mismatch) are
  not distinct.
\<close>

theorem GetPrivateKey_no_block_counterexample:
  "\<not> (snd (fst (GetPrivateKey fixture_lib (key_data [] ''rsa''))) \<noteq>
       snd (fst (GetPrivateKey fixture_lib (key_data (armor ''EC PRIVATE KEY'' ''AAEC'') ''rsa''))))"
  by (simp add: GetPrivateKey_def fixture_defs)

text \<open>
  Claim C7. When the key type is \<^verbatim>\<open>rsa\<close> and the first PEM block has type
  \<^verbatim>\<open>RSA PRIVATE KEY\<close>, \<open>GetPrivateKey\<close> gives the block's bytes to the PKCS#1 parser and
  returns the RSA key it yields, or the parser's error when it fails; when the key type is
  \<^verbatim>\<open>ec\<close> and the block type is \<^verbatim>\<open>EC PRIVATE KEY\<close>, it does the same with the EC parser.
\<close>

theorem GetPrivateKey_parses_matching_block:
  assumes "fst (pem_Decode lib (PrivateKey d)) = Some b"
  shows "(PrivateKeyType d = ''rsa'' \<and> Type b = ''RSA PRIVATE KEY'' \<longrightarrow>
            GetPrivateKey lib d =
              ((case x509_ParsePKCS1PrivateKey lib (Bytes b) of
                  Inl msg \<Rightarrow> (None, Some (X509Error msg))
                | Inr private \<Rightarrow> (Some (RSA_PrivateKey private), None)),
               [Call_pem_Decode (PrivateKey d), Call_ParsePKCS1PrivateKey (Bytes b)])) \<and>
         (PrivateKeyType d = ''ec'' \<and> Type b = ''EC PRIVATE KEY'' \<longrightarrow>
            GetPrivateKey lib d =
              ((case x509_ParseECPrivateKey lib (Bytes b) of
                  Inl msg \<Rightarrow> (None, Some (X509Error msg))
                | Inr private \<Rightarrow> (Some (ECDSA_PrivateKey private), None)),
               [Call_pem_Decode (PrivateKey d), Call_ParseECPrivateKey (Bytes b)]))"
  using assms by (auto simp add: GetPrivateKey_def Let_def split: sum.split)

theorem GetPrivateKey_parses_matching_block_witness:
  "fst (pem_Decode fixture_lib (PrivateKey (key_data (armor ''RSA PRIVATE KEY'' ''AAEC'') ''rsa''))) =
     Some \<lparr>Type = ''RSA PRIVATE KEY'', Headers = [], Bytes = good_der\<rparr> \<and>
   GetPrivateKey fixture_lib (key_data (armor ''RSA PRIVATE KEY'' ''AAEC'') ''rsa'') =
     ((Some (RSA_PrivateKey ''rsa key 0 1 2''), None),
      [Call_pem_Decode (armor ''RSA PRIVATE KEY'' ''AAEC''), Call_ParsePKCS1PrivateKey good_der]) \<and>
   fst (pem_Decode fixture_lib (PrivateKey (key_data (armor ''EC PRIVATE KEY'' ''/w=='') ''ec''))) =
     Some \<lparr>Type = ''EC PRIVATE KEY'', Headers = [], Bytes = bad_der\<rparr> \<and>
   GetPrivateKey fixture_lib (key_data (armor ''EC PRIVATE KEY'' ''/w=='') ''ec'') =
     ((None, Some (X509Error ''asn1: syntax error'')),
      [Call_pem_Decode (armor ''EC PRIVATE KEY'' ''/w==''), Call_ParseECPrivateKey bad_der])"
  using GetPrivateKey_parses_matching_block
          [of fixture_lib "key_data (armor ''RSA PRIVATE KEY'' ''AAEC'') ''rsa''"
              "\<lparr>Type = ''RSA PRIVATE KEY'', Headers = [], Bytes = good_der\<rparr>"]
        GetPrivateKey_parses_matching_block
          [of fixture_lib "key_data (armor ''EC PRIVATE KEY'' ''/w=='') ''ec''"
              "\<lparr>Type = ''EC PRIVATE KEY'', Headers = [], Bytes = bad_der\<rparr>"]
  by (simp add: fixture_defs)

section \<open>Properties of the CA and CRL fetchers\<close>

text \<open>
  Claim C4, as the code has it. When the request succeeds and \<^verbatim>\<open>pem.Decode\<close> finds no PEM
  block in the body (as for an empty buffer, a buffer without a BEGIN marker or a body
  whose base64 cannot be decoded), \<open>getCA\<close> fails with \<open>ErrCertificateExpected\<close> and \<open>getCRL\<close>
  with \<open>ErrCRLExpected\<close>. These are the very errors they return when a block is found that
  carries another type tag: the two kinds of failure are not distinguished.
\<close>

theorem getCA_getCRL_no_matching_block:
  assumes "newServiceRequest c ''GET'' path opts = Inr req"
    and "client_do c req = (Some r, None)"
    and "ReadAll_Body c r = Inr pemData"
  shows "(fst (pem_Decode lib pemData) = None \<or>
          (\<exists>b. fst (pem_Decode lib pemData) = Some b \<and> Type b \<noteq> ''CERTIFICATE'')
            \<longrightarrow> fst (getCA lib c path opts) = (None, None, Some r, Some ErrCertificateExpected)) \<and>
         (fst (pem_Decode lib pemData) = None \<or>
          (\<exists>b. fst (pem_Decode lib pemData) = Some b \<and> Type b \<noteq> ''X509 CRL'')
            \<longrightarrow> fst (getCRL lib c path opts) = (None, None, Some r, Some ErrCRLExpected))"
  using assms by (auto simp add: getCA_def getCRL_def Let_def)

theorem getCA_getCRL_no_matching_block_witness:
  "newServiceRequest (fixture_client []) ''GET'' ''core/pki/api/root/ca/pem'' [] =
     Inr ''core/pki/api/root/ca/pem'' \<and>
   client_do (fixture_client []) ''core/pki/api/root/ca/pem'' = (Some [], None) \<and>
   ReadAll_Body (fixture_client []) [] = Inr [] \<and>
   fst (pem_Decode fixture_lib []) = None \<and>
   fst (getCA fixture_lib (fixture_client []) ''core/pki/api/root/ca/pem'' []) =
     (None, None, Some [], Some ErrCertificateExpected) \<and>
   fst (getCRL fixture_lib (fixture_client []) ''core/pki/api/root/ca/pem'' []) =
     (None, None, Some [], Some ErrCRLExpected)"
  using getCA_getCRL_no_matching_block
          [of "fixture_client []" "''core/pki/api/root/ca/pem''" "[]"
              "''core/pki/api/root/ca/pem''" "[]" "[]" fixture_lib]
  by (simp add: fixture_defs)

text \<open>
  Against claim C4 as stated: \<open>getCA\<close> returns one and the same error for an empty body
  (no PEM block) and for a body that is a well-armored \<^verbatim>\<open>X509 CRL\<close> block (wrong type).
\<close>

theorem getCA_no_block_counterexample:
  "\<not> (ret_err (fst (getCA fixture_lib (fixture_client []) ''core/pki/api/root/ca/pem'' [])) \<noteq>
       ret_err (fst (getCA fixture_lib (fixture_client (armor ''X509 CRL'' ''AAEC''))
                       ''core/pki/api/root/ca/pem'' [])))"
  by (simp add: getCA_def ret_err_def fixture_defs)

text \<open>
  Claim C6. When the request succeeds and the first PEM block of the body has type
  \<^verbatim>\<open>X509 CRL\<close>, \<open>getCA\<close> fails with \<open>ErrCertificateExpected\<close>, its error for an unexpected
  block type, and the calls it made end after \<^verbatim>\<open>pem.Decode\<close>: the certificate parser is
  not invoked. In the same way, on a first block of type \<^verbatim>\<open>CERTIFICATE\<close>, \<open>getCRL\<close> fails
  with \<open>ErrCRLExpected\<close> without invoking the CRL parser.
\<close>

theorem wrong_block_type_not_parsed:
  assumes "newServiceRequest c ''GET'' path opts = Inr req"
    and "client_do c req = (Some r, None)"
    and "ReadAll_Body c r = Inr pemData"
    and "fst (pem_Decode lib pemData) = Some b"
  shows "(Type b = ''X509 CRL'' \<longrightarrow>
            getCA lib c path opts =
              ((None, None, Some r, Some ErrCertificateExpected),
               [Call_newServiceRequest ''GET'' path, Call_do, Call_ReadAll,
                Call_pem_Decode pemData, Call_Body_Close])) \<and>
         (Type b = ''CERTIFICATE'' \<longrightarrow>
            getCRL lib c path opts =
              ((None, None, Some r, Some ErrCRLExpected),
               [Call_newServiceRequest ''GET'' path, Call_do, Call_ReadAll,
                Call_pem_Decode pemData, Call_Body_Close]))"
  using assms by (auto simp add: getCA_def getCRL_def Let_def)

theorem wrong_block_type_not_parsed_witness:
  "newServiceRequest (fixture_client (armor ''X509 CRL'' ''AAEC'')) ''GET'' ''ca'' [] = Inr ''ca'' \<and>
   client_do (fixture_client (armor ''X509 CRL'' ''AAEC'')) ''ca'' =
     (Some (armor ''X509 CRL'' ''AAEC''), None) \<and>
   ReadAll_Body (fixture_client (armor ''X509 CRL'' ''AAEC'')) (armor ''X509 CRL'' ''AAEC'') =
     Inr (armor ''X509 CRL'' ''AAEC'') \<and>
   fst (pem_Decode fixture_lib (armor ''X509 CRL'' ''AAEC'')) =
     Some \<lparr>Type = ''X509 CRL'', Headers = [], Bytes = good_der\<rparr> \<and>
   getCA fixture_lib (fixture_client (armor ''X509 CRL'' ''AAEC'')) ''ca'' [] =
     ((None, None, Some (armor ''X509 CRL'' ''AAEC''), Some ErrCertificateExpected),
      [Call_newServiceRequest ''GET'' ''ca'', Call_do, Call_ReadAll,
       Call_pem_Decode (armor ''X509 CRL'' ''AAEC''), Call_Body_Close]) \<and>
   fst (pem_Decode fixture_lib (armor ''CERTIFICATE'' ''AAEC'')) =
     Some \<lparr>Type = ''CERTIFICATE'', Headers = [], Bytes = good_der\<rparr> \<and>
   getCRL fixture_lib (fixture_client (armor ''CERTIFICATE'' ''AAEC'')) ''crl'' [] =
     ((None, None, Some (armor ''CERTIFICATE'' ''AAEC''), Some ErrCRLExpected),
      [Call_newServiceRequest ''GET'' ''crl'', Call_do, Call_ReadAll,
       Call_pem_Decode (armor ''CERTIFICATE'' ''AAEC''), Call_Body_Close])"
  using wrong_block_type_not_parsed
          [of "fixture_client (armor ''X509 CRL'' ''AAEC'')" "''ca''" "[]" "''ca''"
              "armor ''X509 CRL'' ''AAEC''" "armor ''X509 CRL'' ''AAEC''" fixture_lib
              "\<lparr>Type = ''X509 CRL'', Headers = [], Bytes = good_der\<rparr>"]
        wrong_block_type_not_parsed
          [of "fixture_client (armor ''CERTIFICATE'' ''AAEC'')" "''crl''" "[]" "''crl''"
              "armor ''CERTIFICATE'' ''AAEC''" "armor ''CERTIFICATE'' ''AAEC''" fixture_lib
              "\<lparr>Type = ''CERTIFICATE'', Headers = [], Bytes = good_der\<rparr>"]
  by (simp add: fixture_defs)

section \<open>Properties of all four decoders\<close>

text \<open>
  Claim C3, as the code has it. Each of \<open>GetCertificate\<close>, \<open>GetPrivateKey\<close>, \<open>getCA\<close> and
  \<open>getCRL\<close> returns, on every input, either a decoded object with a \<^verbatim>\<open>nil\<close> error or an
  error with no decoded object. \<open>getCA\<close> and \<open>getCRL\<close> return a PEM block alongside an error
  in one case only, and there they always do: when the block has the expected type and its
  DER payload fails to parse, the block is returned together with the parser's error.
\<close>

theorem decode_all_or_nothing:
  "all_or_nothing (fst (GetCertificate lib d)) \<and>
   all_or_nothing (fst (GetPrivateKey lib d)) \<and>
   all_or_nothing (ret_object (fst (getCA lib c path opts)), ret_err (fst (getCA lib c path opts))) \<and>
   all_or_nothing (ret_object (fst (getCRL lib c path opts)), ret_err (fst (getCRL lib c path opts))) \<and>
   (\<forall>b e. ret_block (fst (getCA lib c path opts)) = Some b \<and>
           ret_err (fst (getCA lib c path opts)) = Some e
      \<longrightarrow> Type b = ''CERTIFICATE'' \<and>
          (\<exists>msg. x509_ParseCertificate lib (Bytes b) = Inl msg \<and> e = X509Error msg)) \<and>
   (\<forall>b e. ret_block (fst (getCRL lib c path opts)) = Some b \<and>
           ret_err (fst (getCRL lib c path opts)) = Some e
      \<longrightarrow> Type b = ''X509 CRL'' \<and>
          (\<exists>msg. x509_ParseCRL lib (Bytes b) = Inl msg \<and> e = X509Error msg)) \<and>
   (\<forall>req r pemData b msg.
      newServiceRequest c ''GET'' path opts = Inr req \<and> client_do c req = (Some r, None) \<and>
      ReadAll_Body c r = Inr pemData \<and> fst (pem_Decode lib pemData) = Some b \<and>
      Type b = ''CERTIFICATE'' \<and> x509_ParseCertificate lib (Bytes b) = Inl msg
      \<longrightarrow> fst (getCA lib c path opts) = (None, Some b, Some r, Some (X509Error msg))) \<and>
   (\<forall>req r pemData b msg.
      newServiceRequest c ''GET'' path opts = Inr req \<and> client_do c req = (Some r, None) \<and>
      ReadAll_Body c r = Inr pemData \<and> fst (pem_Decode lib pemData) = Some b \<and>
      Type b = ''X509 CRL'' \<and> x509_ParseCRL lib (Bytes b) = Inl msg
      \<longrightarrow> fst (getCRL lib c path opts) = (None, Some b, Some r, Some (X509Error msg)))"
proof (intro conjI)
  show "all_or_nothing (fst (GetCertificate lib d))"
    by (simp add: GetCertificate_def all_or_nothing_def Let_def split: option.split sum.split)
  show "all_or_nothing (fst (GetPrivateKey lib d))"
    by (simp add: GetPrivateKey_def all_or_nothing_def Let_def split: option.split sum.split)
  show "all_or_nothing (ret_object (fst (getCA lib c path opts)),
                        ret_err (fst (getCA lib c path opts)))"
    by (simp add: getCA_def all_or_nothing_def ret_object_def ret_err_def Let_def
        split: option.split sum.split prod.split)
  show "all_or_nothing (ret_object (fst (getCRL lib c path opts)),
                        ret_err (fst (getCRL lib c path opts)))"
    by (simp add: getCRL_def all_or_nothing_def ret_object_def ret_err_def Let_def
        split: option.split sum.split prod.split)
  show "\<forall>b e. ret_block (fst (getCA lib c path opts)) = Some b \<and>
              ret_err (fst (getCA lib c path opts)) = Some e
          \<longrightarrow> Type b = ''CERTIFICATE'' \<and>
              (\<exists>msg. x509_ParseCertificate lib (Bytes b) = Inl msg \<and> e = X509Error msg)"
    by (auto simp add: getCA_def ret_block_def ret_err_def Let_def
        split: option.splits sum.splits prod.splits if_splits)
  show "\<forall>b e. ret_block (fst (getCRL lib c path opts)) = Some b \<and>
              ret_err (fst (getCRL lib c path opts)) = Some e
          \<longrightarrow> Type b = ''X509 CRL'' \<and>
              (\<exists>msg. x509_ParseCRL lib (Bytes b) = Inl msg \<and> e = X509Error msg)"
    by (auto simp add: getCRL_def ret_block_def ret_err_def Let_def
        split: option.splits sum.splits prod.splits if_splits)
  show "\<forall>req r pemData b msg.
          newServiceRequest c ''GET'' path opts = Inr req \<and> client_do c req = (Some r, None) \<and>
          ReadAll_Body c r = Inr pemData \<and> fst (pem_Decode lib pemData) = Some b \<and>
          Type b = ''CERTIFICATE'' \<and> x509_ParseCertificate lib (Bytes b) = Inl msg
          \<longrightarrow> fst (getCA lib c path opts) = (None, Some b, Some r, Some (X509Error msg))"
    by (simp add: getCA_def Let_def)
  show "\<forall>req r pemData b msg.
          newServiceRequest c ''GET'' path opts = Inr req \<and> client_do c req = (Some r, None) \<and>
          ReadAll_Body c r = Inr pemData \<and> fst (pem_Decode lib pemData) = Some b \<and>
          Type b = ''X509 CRL'' \<and> x509_ParseCRL lib (Bytes b) = Inl msg
          \<longrightarrow> fst (getCRL lib c path opts) = (None, Some b, Some r, Some (X509Error msg))"
    by (simp add: getCRL_def Let_def)
qed

theorem decode_all_or_nothing_witness:
  "(x509_ParseCRL fixture_lib bad_der = Inl ''asn1: syntax error'' \<and>
    fst (getCRL fixture_lib (fixture_client (armor ''X509 CRL'' ''/w=='')) ''crl'' []) =
      (None, Some \<lparr>Type = ''X509 CRL'', Headers = [], Bytes = bad_der\<rparr>,
       Some (armor ''X509 CRL'' ''/w==''), Some (X509Error ''asn1: syntax error'')) \<and>
    all_or_nothing (fst (GetCertificate fixture_lib (cert_data (armor ''CERTIFICATE'' ''AAEC''))))) \<and>
   (x509_ParseCertificate fixture_lib bad_der = Inl ''asn1: syntax error'' \<and>
    fst (getCA fixture_lib (fixture_client (armor ''CERTIFICATE'' ''/w=='')) ''ca'' []) =
      (None, Some \<lparr>Type = ''CERTIFICATE'', Headers = [], Bytes = bad_der\<rparr>,
       Some (armor ''CERTIFICATE'' ''/w==''), Some (X509Error ''asn1: syntax error'')) \<and>
    all_or_nothing
      (fst (GetPrivateKey fixture_lib (key_data (armor ''EC PRIVATE KEY'' ''AAEC'') ''ec''))))"
proof (rule conjI)
  show "x509_ParseCRL fixture_lib bad_der = Inl ''asn1: syntax error'' \<and>
        fst (getCRL fixture_lib (fixture_client (armor ''X509 CRL'' ''/w=='')) ''crl'' []) =
          (None, Some \<lparr>Type = ''X509 CRL'', Headers = [], Bytes = bad_der\<rparr>,
           Some (armor ''X509 CRL'' ''/w==''), Some (X509Error ''asn1: syntax error'')) \<and>
        all_or_nothing (fst (GetCertificate fixture_lib (cert_data (armor ''CERTIFICATE'' ''AAEC''))))"
    using decode_all_or_nothing
            [of fixture_lib "cert_data (armor ''CERTIFICATE'' ''AAEC'')"
                "fixture_client (armor ''X509 CRL'' ''/w=='')" "''crl''" "[]"]
    by (simp add: fixture_defs)
  show "x509_ParseCertificate fixture_lib bad_der = Inl ''asn1: syntax error'' \<and>
        fst (getCA fixture_lib (fixture_client (armor ''CERTIFICATE'' ''/w=='')) ''ca'' []) =
          (None, Some \<lparr>Type = ''CERTIFICATE'', Headers = [], Bytes = bad_der\<rparr>,
           Some (armor ''CERTIFICATE'' ''/w==''), Some (X509Error ''asn1: syntax error'')) \<and>
        all_or_nothing
          (fst (GetPrivateKey fixture_lib (key_data (armor ''EC PRIVATE KEY'' ''AAEC'') ''ec'')))"
    using decode_all_or_nothing
            [of fixture_lib "key_data (armor ''EC PRIVATE KEY'' ''AAEC'') ''ec''"
                "fixture_client (armor ''CERTIFICATE'' ''/w=='')" "''ca''" "[]"]
    by (simp add: fixture_defs)
qed

text \<open>
  Against claim C3 as stated: on a body that is a well-armored \<^verbatim>\<open>CERTIFICATE\<close> block whose
  DER payload does not parse, \<open>getCA\<close> returns the PEM block alongside the error.
\<close>

theorem getCA_block_with_error_counterexample:
  "fst (getCA fixture_lib (fixture_client (armor ''CERTIFICATE'' ''/w=='')) ''core/pki/api/root/ca/pem'' []) =
     (None, Some \<lparr>Type = ''CERTIFICATE'', Headers = [], Bytes = [CHR 0xFF]\<rparr>,
      Some (armor ''CERTIFICATE'' ''/w==''), Some (X509Error ''asn1: syntax error''))"
  by (simp add: getCA_def fixture_defs)



section \<open>Purity of the decoders of an issue response\<close>



section \<open>Properties of the role lookup\<close>

text \<open>
  Claim C10. When the request is built and performed without error but the role decoded
  from the response has an ID other than the requested one, \<open>GetRoleByID\<close> returns no role,
  the response and \<open>ErrNotFound\<close>; whenever it returns a role, the role's ID is the
  requested one.
\<close>

theorem GetRoleByID_checks_ID:
  "(newRequest c ''IDM'' ''GET'' (''authorize/identity/Role/'' @ roleID) = Inr req \<and>
    iam_do c (Header_Set c (Header_Set c req ''api-version'' roleAPIVersion)
                ''Content-Type'' ''application/json'') zero_Role = (resp, None, role) \<and>
    ID role \<noteq> roleID
      \<longrightarrow> GetRoleByID c roleID = (None, resp, Some ErrNotFound)) \<and>
   (\<forall>r. fst (GetRoleByID c roleID) = Some r \<longrightarrow> ID r = roleID)"
  by (auto simp add: GetRoleByID_def Let_def split: sum.splits option.splits prod.splits if_splits)

theorem GetRoleByID_checks_ID_witness:
  "newRequest fixture_iam ''IDM'' ''GET'' (''authorize/identity/Role/'' @ ''r2'') =
     Inr (''authorize/identity/Role/r2'', []) \<and>
   iam_do fixture_iam
     (Header_Set fixture_iam
        (Header_Set fixture_iam (''authorize/identity/Role/r2'', []) ''api-version'' roleAPIVersion)
        ''Content-Type'' ''application/json'') zero_Role =
     (Some ''200 OK'', None,
      \<lparr>ID = ''r1'', Name = ''ADMIN'', Description = ''administrators'', ManagingOrganization = []\<rparr>) \<and>
   ID \<lparr>ID = ''r1'', Name = ''ADMIN'', Description = ''administrators'', ManagingOrganization = []\<rparr>
     \<noteq> ''r2'' \<and>
   GetRoleByID fixture_iam ''r2'' = (None, Some ''200 OK'', Some ErrNotFound) \<and>
   fst (GetRoleByID fixture_iam ''r1'') =
     Some \<lparr>ID = ''r1'', Name = ''ADMIN'', Description = ''administrators'', ManagingOrganization = []\<rparr> \<and>
   ID \<lparr>ID = ''r1'', Name = ''ADMIN'', Description = ''administrators'', ManagingOrganization = []\<rparr>
     = ''r1''"
proof -
  have h1: "newRequest fixture_iam ''IDM'' ''GET'' (''authorize/identity/Role/'' @ ''r2'') =
              Inr (''authorize/identity/Role/r2'', [])"
    by (simp add: fixture_iam_def)
  have h2: "iam_do fixture_iam
     (Header_Set fixture_iam
        (Header_Set fixture_iam (''authorize/identity/Role/r2'', []) ''api-version'' roleAPIVersion)
        ''Content-Type'' ''application/json'') zero_Role =
     (Some ''200 OK'', None,
      \<lparr>ID = ''r1'', Name = ''ADMIN'', Description = ''administrators'', ManagingOrganization = []\<rparr>)"
    by (simp add: fixture_iam_def zero_Role_def)
  have h3: "ID \<lparr>ID = ''r1'', Name = ''ADMIN'', Description = ''administrators'',
                ManagingOrganization = []\<rparr> \<noteq> ''r2''"
    by simp
  have r1: "fst (GetRoleByID fixture_iam ''r1'') =
              Some \<lparr>ID = ''r1'', Name = ''ADMIN'', Description = ''administrators'',
                    ManagingOrganization = []\<rparr>"
    by (simp add: GetRoleByID_def fixture_iam_def zero_Role_def)
  from GetRoleByID_checks_ID
         [of fixture_iam "''r2''" "(''authorize/identity/Role/r2'', [])" "Some ''200 OK''"
             "\<lparr>ID = ''r1'', Name = ''ADMIN'', Description = ''administrators'',
               ManagingOrganization = []\<rparr>"]
       h1 h2 h3
  have a: "GetRoleByID fixture_iam ''r2'' = (None, Some ''200 OK'', Some ErrNotFound)"
    by blast
  from GetRoleByID_checks_ID [of fixture_iam "''r1''"] r1
  have b: "ID \<lparr>ID = ''r1'', Name = ''ADMIN'', Description = ''administrators'',
               ManagingOrganization = []\<rparr> = ''r1''"
    by blast
  show ?thesis
    using h1 h2 h3 a r1 b by (intro conjI)
qed

end
